theory Spec2Isabelle
  imports Complex_Main
begin

section \<open>The satellite dashboard of \<^verbatim>\<open>src/src/App.tsx\<close>\<close>

text \<open>
  The component \<^verbatim>\<open>App\<close> owns six pieces of React state (the satellite registry, the
  active alerts, the execution log and the three form inputs) and three operations that
  change them: \<^verbatim>\<open>addSatellite\<close>, the timer callback that \<^verbatim>\<open>addSatellite\<close> schedules, and
  \<^verbatim>\<open>executeAction\<close>. Each operation is a function from state to state. What the code reads
  from its surroundings is an argument: the clock (\<^verbatim>\<open>Date.now()\<close>), the random draw of
  the conjunction check and the random offset of an identifier (\<^verbatim>\<open>Math.random()\<close>), the
  outcome of the HTTP request, and the built-in \<^verbatim>\<open>parseFloat\<close>.
\<close>

subsection \<open>Values\<close>

text \<open>
  The body of the feed's response has the TypeScript type \<^verbatim>\<open>any\<close>: it is whatever the
  server sent. \<open>jsval\<close> is the JavaScript values a parsed JSON body can be, and
  \<open>JUndefined\<close> for a property that is not there.
\<close>

datatype jsval =
    JUndefined
  | JNull
  | JBool bool
  | JNum real
  | JStr string
  | JArr "jsval list"
  | JObj "(string \<times> jsval) list"

datatype error = TypeError | RequestFailed

text \<open>
  \<^verbatim>\<open>type Satellite = { id: number; name: string; altitude: number; inclination: number }\<close>.
  The identifier is a millisecond count of \<^verbatim>\<open>Date.now()\<close>, an integer. The two measures
  are whatever \<^verbatim>\<open>parseFloat\<close> returns, of a type \<open>'n\<close> left open: no operation of the
  component computes with them.
\<close>

record 'n Satellite =
  id_sat :: int
  name_sat :: string
  altitude_sat :: 'n
  inclination_sat :: 'n

text \<open>
  \<^verbatim>\<open>type Alert = { id: number; satelliteId: number; message: string; action: string;
  executed: boolean }\<close>. The message of a space-weather alert is copied from the feed
  unchecked, so at run time it is the \<open>jsval\<close> that the feed held; a text \<open>s\<close> is \<open>JStr s\<close>.
\<close>

record Alert =
  id_alert :: int
  satelliteId :: int
  message :: jsval
  action :: string
  executed :: bool

text \<open>
  The state of the component: the six \<^verbatim>\<open>useState\<close> cells, and the timers that
  \<^verbatim>\<open>setTimeout\<close> has armed and that have not completed yet, each with its delay in
  milliseconds and the identifier of the satellite its callback has captured.
\<close>

record 'n AppState =
  satellites :: "'n Satellite list"
  alerts :: "Alert list"
  executedActions :: "string list"
  name :: string
  altitude :: string
  inclination :: string
  timers :: "(nat \<times> int) list"

definition initial :: "'n AppState" where
  "initial = \<lparr>satellites = [], alerts = [], executedActions = [],
     name = [], altitude = [], inclination = [], timers = []\<rparr>"

subsection \<open>fetchCMEAlerts\<close>

text \<open>\<^verbatim>\<open>String.prototype.includes\<close>: the text holds the pattern as a contiguous run.\<close>

fun startsWith :: "string \<Rightarrow> string \<Rightarrow> bool" where
  "startsWith s [] = True"
| "startsWith [] (p # ps) = False"
| "startsWith (c # cs) (p # ps) = (c = p \<and> startsWith cs ps)"

fun includes_str :: "string \<Rightarrow> string \<Rightarrow> bool" where
  "includes_str [] p = (p = [])"
| "includes_str (c # cs) p = (startsWith (c # cs) p \<or> includes_str cs p)"

text \<open>
  \<^verbatim>\<open>alert.message\<close>: reading a property of \<^verbatim>\<open>undefined\<close> or \<^verbatim>\<open>null\<close> throws a TypeError; an
  object yields its own property; every other value has no such property.
\<close>

fun messageOf :: "jsval \<Rightarrow> error + jsval" where
  "messageOf JUndefined = Inl TypeError"
| "messageOf JNull = Inl TypeError"
| "messageOf (JObj kvs) = Inr (case map_of kvs ''message'' of None \<Rightarrow> JUndefined | Some v \<Rightarrow> v)"
| "messageOf v = Inr JUndefined"

text \<open>
  \<^verbatim>\<open>m.includes(p)\<close>: a string searches itself for the pattern, an array looks for an element
  that is the pattern, and on any other value the call throws a TypeError (there is no
  such method, or the property is not a function).
\<close>

fun includesCall :: "jsval \<Rightarrow> string \<Rightarrow> error + bool" where
  "includesCall (JStr s) p = Inr (includes_str s p)"
| "includesCall (JArr vs) p = Inr (JStr p \<in> set vs)"
| "includesCall v p = Inl TypeError"

definition isCME :: "jsval \<Rightarrow> error + bool" where
  "isCME alert =
     (case messageOf alert of
        Inl e \<Rightarrow> Inl e
      | Inr m \<Rightarrow> includesCall m ''Coronal Mass Ejection'')"

text \<open>\<^verbatim>\<open>Array.prototype.filter\<close> and \<^verbatim>\<open>map\<close> with a callback that can throw: the first throw ends the call.\<close>

fun filterE :: "('a \<Rightarrow> error + bool) \<Rightarrow> 'a list \<Rightarrow> error + 'a list" where
  "filterE f [] = Inr []"
| "filterE f (x # xs) =
     (case f x of
        Inl e \<Rightarrow> Inl e
      | Inr b \<Rightarrow>
          (case filterE f xs of
             Inl e \<Rightarrow> Inl e
           | Inr ys \<Rightarrow> Inr (if b then x # ys else ys)))"

fun mapE :: "('a \<Rightarrow> error + 'b) \<Rightarrow> 'a list \<Rightarrow> error + 'b list" where
  "mapE f [] = Inr []"
| "mapE f (x # xs) =
     (case f x of
        Inl e \<Rightarrow> Inl e
      | Inr y \<Rightarrow>
          (case mapE f xs of
             Inl e \<Rightarrow> Inl e
           | Inr ys \<Rightarrow> Inr (y # ys)))"

text \<open>
  The outcome of \<^verbatim>\<open>axios.get\<close>: the request is rejected, or there is a response with its
  \<^verbatim>\<open>data\<close>.
\<close>

datatype feed = Rejected | Response jsval

text \<open>
  The body of the \<^verbatim>\<open>try\<close> block. \<^verbatim>\<open>alerts.filter\<close> is a function only when \<^verbatim>\<open>alerts\<close> is an
  array; on every other value the call throws.
\<close>

definition cmeAlerts :: "feed \<Rightarrow> error + jsval list" where
  "cmeAlerts f =
     (case f of
        Rejected \<Rightarrow> Inl RequestFailed
      | Response (JArr advisories) \<Rightarrow>
          (case filterE isCME advisories of
             Inl e \<Rightarrow> Inl e
           | Inr ms \<Rightarrow> mapE messageOf ms)
      | Response _ \<Rightarrow> Inl TypeError)"

text \<open>The \<^verbatim>\<open>catch\<close> block turns every error into the empty list.\<close>

definition fetchCMEAlerts :: "feed \<Rightarrow> jsval list" where
  "fetchCMEAlerts f = (case cmeAlerts f of Inl e \<Rightarrow> [] | Inr ms \<Rightarrow> ms)"

subsection \<open>simulateConjunctionAlert\<close>

text \<open>
  \<open>chance\<close> is the first \<^verbatim>\<open>Math.random()\<close> and \<open>now\<close> is \<^verbatim>\<open>Date.now()\<close>. \<open>offset\<close> is the value
  of \<^verbatim>\<open>Math.floor(Math.random() * 1000)\<close>, which the code computes only when it builds the
  alert: the product is one of double-precision numbers, rounded before the floor is
  taken, so the integer it yields is an argument here and is not computed from the draw.
\<close>

definition simulateConjunctionAlert :: "int \<Rightarrow> real \<Rightarrow> int \<Rightarrow> int \<Rightarrow> Alert option" where
  "simulateConjunctionAlert satId chance now offset =
     (if chance < 0.4 then None
      else Some \<lparr>id_alert = now + offset,
                 satelliteId = satId,
                 message = JStr ''Conjunction alert: Possible collision with space debris!'',
                 action = ''Perform evasive maneuver or adjust orbit'',
                 executed = False\<rparr>)"

subsection \<open>addSatellite and its timer callback\<close>

text \<open>
  \<^verbatim>\<open>!name\<close> holds of a string exactly when it is empty. \<open>parseFloat\<close> is the built-in, and
  \<open>now\<close> is \<^verbatim>\<open>Date.now()\<close>. The call to \<^verbatim>\<open>setTimeout\<close> arms a timer of 10000 ms whose callback
  has captured \<^verbatim>\<open>newSat\<close> and reads its \<^verbatim>\<open>id\<close> only.
\<close>

definition addSatellite :: "(string \<Rightarrow> 'n) \<Rightarrow> int \<Rightarrow> 'n AppState \<Rightarrow> 'n AppState" where
  "addSatellite parseFloat now st =
     (if name st = [] \<or> altitude st = [] \<or> inclination st = [] then st
      else
        let newSat = \<lparr>id_sat = now,
                      name_sat = name st,
                      altitude_sat = parseFloat (altitude st),
                      inclination_sat = parseFloat (inclination st)\<rparr>
        in st\<lparr>satellites := satellites st @ [newSat],
               name := [],
               altitude := [],
               inclination := [],
               timers := timers st @ [(10000, id_sat newSat)]\<rparr>)"

text \<open>
  The callback, from the point where the awaited \<^verbatim>\<open>fetchCMEAlerts\<close> has settled: the rest
  runs without interruption. \<open>now1\<close> is the \<^verbatim>\<open>Date.now()\<close> of the space-weather alert;
  \<open>chance\<close>, \<open>now2\<close> and \<open>offset\<close> are what \<^verbatim>\<open>simulateConjunctionAlert\<close> reads.
\<close>

definition hazardTask ::
    "int \<Rightarrow> feed \<Rightarrow> int \<Rightarrow> real \<Rightarrow> int \<Rightarrow> int \<Rightarrow> 'n AppState \<Rightarrow> 'n AppState" where
  "hazardTask newSatId f now1 chance now2 offset st =
     (let st1 =
        (case fetchCMEAlerts f of
           [] \<Rightarrow> st
         | m # _ \<Rightarrow>
             st\<lparr>alerts := alerts st @
                   [\<lparr>id_alert = now1,
                     satelliteId = newSatId,
                     message = m,
                     action = ''Switch off non-critical electronics and shield instruments'',
                     executed = False\<rparr>]\<rparr>)
      in case simulateConjunctionAlert newSatId chance now2 offset of
           None \<Rightarrow> st1
         | Some conjunctionAlert \<Rightarrow> st1\<lparr>alerts := alerts st1 @ [conjunctionAlert]\<rparr>)"

subsection \<open>executeAction\<close>

text \<open>
  The log entry starts with the check mark U+2705, here the three bytes of its UTF-8
  encoding.
\<close>

definition successMarker :: string where
  "successMarker = [CHR 0xE2, CHR 0x9C, CHR 0x85]"

text \<open>
  \<^verbatim>\<open>satellites.find(...)?.name || 'Unknown Satellite'\<close>: the label also replaces a name that
  is the empty string, which \<^verbatim>\<open>||\<close> takes for false. The registry that \<^verbatim>\<open>executeAction\<close>
  searches is the one of the render that drew the button, taken here to be the current
  one; the two updates are functions of the latest state, as in the code.
\<close>

definition satNameOf :: "'n Satellite list \<Rightarrow> int \<Rightarrow> string" where
  "satNameOf sats sid =
     (case find (\<lambda>s. id_sat s = sid) sats of
        None \<Rightarrow> ''Unknown Satellite''
      | Some s \<Rightarrow> if name_sat s = [] then ''Unknown Satellite'' else name_sat s)"

definition logEntry :: "string \<Rightarrow> string \<Rightarrow> string" where
  "logEntry satName act = successMarker @ '' Action executed for '' @ satName @ '': '' @ act"

definition executeAction :: "Alert \<Rightarrow> 'n AppState \<Rightarrow> 'n AppState" where
  "executeAction alert st =
     (if executed alert then st
      else
        let satName = satNameOf (satellites st) (satelliteId alert);
            log = logEntry satName (action alert)
        in st\<lparr>executedActions := executedActions st @ [log],
               alerts :=
                 filter (\<lambda>a. id_alert a \<noteq> id_alert alert)
                   (map (\<lambda>a. if id_alert a = id_alert alert then a\<lparr>executed := True\<rparr> else a)
                      (alerts st))\<rparr>)"

subsection \<open>The number inputs\<close>

text \<open>
  The altitude and the inclination come from \<^verbatim>\<open><input type="number">\<close>. The value of such
  an input is its text when the text is a valid floating-point number, and the empty
  string otherwise. A valid floating-point number is an optional minus sign; then digits,
  or a full stop followed by digits, or both in this order; then, optionally, an exponent:
  the letter e in either case, an optional sign and digits.
\<close>

definition isDigit :: "char \<Rightarrow> bool" where
  "isDigit c = (c \<in> set ''0123456789'')"

definition validExponent :: "string \<Rightarrow> bool" where
  "validExponent s =
     (case s of
        [] \<Rightarrow> True
      | c # t \<Rightarrow>
          (c = CHR ''e'' \<or> c = CHR ''E'') \<and>
          (let u = (case t of
                      [] \<Rightarrow> []
                    | d # t' \<Rightarrow> if d = CHR ''-'' \<or> d = CHR ''+'' then t' else t)
           in u \<noteq> [] \<and> list_all isDigit u))"

definition validFloatingPoint :: "string \<Rightarrow> bool" where
  "validFloatingPoint s =
     (let unsigned = (case s of [] \<Rightarrow> [] | c # t \<Rightarrow> if c = CHR ''-'' then t else s);
          whole = takeWhile isDigit unsigned;
          afterWhole = dropWhile isDigit unsigned;
          fraction = (case afterWhole of
                        [] \<Rightarrow> []
                      | c # t \<Rightarrow> if c = CHR ''.'' then takeWhile isDigit t else []);
          afterFraction = (if fraction = [] then afterWhole
                           else dropWhile isDigit (tl afterWhole))
      in (whole \<noteq> [] \<or> fraction \<noteq> []) \<and> validExponent afterFraction)"

definition numberInputValue :: "string \<Rightarrow> string" where
  "numberInputValue s = (if validFloatingPoint s then s else [])"

subsection \<open>Runs of the component\<close>

text \<open>
  The events that change the state: typing a text into one of the three inputs, the button
  that calls \<^verbatim>\<open>addSatellite\<close>, the completion of an armed timer's callback (the \<open>i\<close>-th of the
  pending ones, with what it reads from the feed, the clock and the random source), and a
  call of \<^verbatim>\<open>executeAction\<close>. The name is typed into a text input, whose \<^verbatim>\<open>onChange\<close> stores
  the text as it is. The altitude and the inclination are typed into inputs of
  \<^verbatim>\<open>type="number"\<close>, whose \<^verbatim>\<open>onChange\<close> stores \<^verbatim>\<open>e.target.value\<close>: the text when it is a number,
  the empty string otherwise.
\<close>

datatype event =
    SetName string
  | SetAltitude string
  | SetInclination string
  | AddSatellite int
  | Complete nat feed int real int int
  | ExecuteAction Alert

fun step :: "(string \<Rightarrow> 'n) \<Rightarrow> event \<Rightarrow> 'n AppState \<Rightarrow> 'n AppState" where
  "step pf (SetName s) st = st\<lparr>name := s\<rparr>"
| "step pf (SetAltitude s) st = st\<lparr>altitude := numberInputValue s\<rparr>"
| "step pf (SetInclination s) st = st\<lparr>inclination := numberInputValue s\<rparr>"
| "step pf (AddSatellite now) st = addSatellite pf now st"
| "step pf (Complete i f now1 chance now2 offset) st =
     (if i < length (timers st)
      then hazardTask (snd (timers st ! i)) f now1 chance now2 offset
             (st\<lparr>timers := take i (timers st) @ drop (Suc i) (timers st)\<rparr>)
      else st)"
| "step pf (ExecuteAction a) st = executeAction a st"

fun run :: "(string \<Rightarrow> 'n) \<Rightarrow> event list \<Rightarrow> 'n AppState \<Rightarrow> 'n AppState" where
  "run pf [] st = st"
| "run pf (e # es) st = run pf es (step pf e st)"

definition formClean :: "'n AppState \<Rightarrow> bool" where
  "formClean st =
     ((altitude st = [] \<or> validFloatingPoint (altitude st))
      \<and> (inclination st = [] \<or> validFloatingPoint (inclination st)))"

definition allPending :: "'n AppState \<Rightarrow> bool" where
  "allPending st = list_all (\<lambda>a. \<not> executed a) (alerts st)"

subsection \<open>Readings of a feed\<close>

text \<open>
  Two readings of an entry of the feed, to state what \<^verbatim>\<open>fetchCMEAlerts\<close> does with it.
  \<open>advisoryText\<close> is the text of an advisory: the entry is an object whose \<^verbatim>\<open>message\<close> is a
  string. \<open>unreadable\<close> holds of an entry on which the filter's callback throws: it is
  not an object, or it has no \<^verbatim>\<open>message\<close>, or its \<^verbatim>\<open>message\<close> is neither a string nor an
  array.
\<close>

definition advisoryText :: "jsval \<Rightarrow> string option" where
  "advisoryText adv =
     (case adv of
        JObj kvs \<Rightarrow> (case map_of kvs ''message'' of Some (JStr s) \<Rightarrow> Some s | _ \<Rightarrow> None)
      | _ \<Rightarrow> None)"

definition unreadable :: "jsval \<Rightarrow> bool" where
  "unreadable adv =
     (case adv of
        JObj kvs \<Rightarrow>
          (case map_of kvs ''message'' of
             Some (JStr s) \<Rightarrow> False
           | Some (JArr vs) \<Rightarrow> False
           | _ \<Rightarrow> True)
      | _ \<Rightarrow> True)"

subsection \<open>A sample session\<close>

text \<open>
  The concrete inputs of the closed examples below. \<open>number\<close> stands for the values of
  \<^verbatim>\<open>parseFloat\<close> there, and \<open>parseFloat_sample\<close> is \<^verbatim>\<open>parseFloat\<close> on the three numeric
  texts the examples type in; it is \<^verbatim>\<open>NaN\<close> elsewhere, as \<^verbatim>\<open>parseFloat\<close> is on the text
  \<^verbatim>\<open>abc\<close>.
\<close>

datatype number = NaN | Num real

definition parseFloat_sample :: "string \<Rightarrow> number" where
  "parseFloat_sample s =
     (if s = ''400'' then Num 400
      else if s = ''51.5'' then Num 51.5
      else if s = ''-5'' then Num (- 5)
      else NaN)"

text \<open>
  One satellite is added when the clock reads 1700000000000. Its timer's callback
  completes when the clock reads 1700000010350, on a feed of one advisory, with the draw
  0.5 for the conjunction check and the offset \<open>k\<close> for the identifier of the conjunction
  alert. \<open>issState i\<close> is the state this leads to, \<open>i\<close> being that identifier. The offset
  is 0 after any second draw that the code multiplies to less than 1, such as 0.0004, and
  250 after the draw 0.25.
\<close>

definition cmeAdvisory :: jsval where
  "cmeAdvisory = JObj [(''message'', JStr ''Coronal Mass Ejection detected'')]"

definition issEvents :: "int \<Rightarrow> event list" where
  "issEvents k =
     [SetName ''ISS'', SetAltitude ''400'', SetInclination ''51.5'', AddSatellite 1700000000000,
      Complete 0 (Response (JArr [cmeAdvisory])) 1700000010350 0.5 1700000010350 k]"

definition cmeAlert0 :: Alert where
  "cmeAlert0 = \<lparr>id_alert = 1700000010350, satelliteId = 1700000000000,
     message = JStr ''Coronal Mass Ejection detected'',
     action = ''Switch off non-critical electronics and shield instruments'',
     executed = False\<rparr>"

definition conjAlert0 :: "int \<Rightarrow> Alert" where
  "conjAlert0 i = \<lparr>id_alert = i, satelliteId = 1700000000000,
     message = JStr ''Conjunction alert: Possible collision with space debris!'',
     action = ''Perform evasive maneuver or adjust orbit'',
     executed = False\<rparr>"

definition iss :: "number Satellite" where
  "iss = \<lparr>id_sat = 1700000000000, name_sat = ''ISS'', altitude_sat = Num 400, inclination_sat = Num 51.5\<rparr>"

definition issState :: "int \<Rightarrow> number AppState" where
  "issState i = \<lparr>satellites = [iss], alerts = [cmeAlert0, conjAlert0 i], executedActions = [],
     name = [], altitude = [], inclination = [], timers = []\<rparr>"

text \<open>A feed of three advisories, the second and the third about a coronal mass ejection.\<close>

definition sampleFeed :: "jsval list" where
  "sampleFeed =
     [JObj [(''product_id'', JStr ''K05W''), (''message'', JStr ''Geomagnetic storm watch'')],
      cmeAdvisory,
      JObj [(''message'', JStr ''Update: Coronal Mass Ejection arrival'')]]"

section \<open>Properties\<close>

subsection \<open>Auxiliary facts\<close>

lemma fetch_cmeAdvisory: "fetchCMEAlerts (Response (JArr [cmeAdvisory])) = [JStr ''Coronal Mass Ejection detected'']"
  by (simp add: fetchCMEAlerts_def cmeAlerts_def cmeAdvisory_def isCME_def)

lemma numberInputValue_samples:
  "numberInputValue ''400'' = ''400''"
  "numberInputValue ''51.5'' = ''51.5''"
  "numberInputValue ''-5'' = ''-5''"
  "numberInputValue ''abc'' = []"
  by (simp_all add: numberInputValue_def validFloatingPoint_def validExponent_def isDigit_def)

lemma run_issEvents_0: "run parseFloat_sample (issEvents 0) initial = issState 1700000010350"
  by (simp add: issEvents_def initial_def addSatellite_def parseFloat_sample_def hazardTask_def
      fetch_cmeAdvisory simulateConjunctionAlert_def issState_def iss_def cmeAlert0_def
      conjAlert0_def Let_def numberInputValue_samples)

lemma run_issEvents_250: "run parseFloat_sample (issEvents 250) initial = issState 1700000010600"
  by (simp add: issEvents_def initial_def addSatellite_def parseFloat_sample_def hazardTask_def
      fetch_cmeAdvisory simulateConjunctionAlert_def issState_def iss_def cmeAlert0_def
      conjAlert0_def Let_def numberInputValue_samples)

lemma startsWith_iff: "startsWith s p \<longleftrightarrow> (\<exists>v. s = p @ v)"
  by (induction s p rule: startsWith.induct) auto

lemma includes_str_iff: "includes_str s p \<longleftrightarrow> (\<exists>u v. s = u @ p @ v)"
proof (induction s)
  case Nil
  then show ?case by auto
next
  case (Cons c cs)
  show ?case
  proof
    assume "includes_str (c # cs) p"
    then consider "startsWith (c # cs) p" | "includes_str cs p" by auto
    then show "\<exists>u v. c # cs = u @ p @ v"
    proof cases
      case 1
      then obtain v where "c # cs = p @ v" by (auto simp: startsWith_iff)
      then have "c # cs = [] @ p @ v" by simp
      then show ?thesis by blast
    next
      case 2
      then obtain u v where "cs = u @ p @ v" using Cons.IH by blast
      then have "c # cs = (c # u) @ p @ v" by simp
      then show ?thesis by blast
    qed
  next
    assume "\<exists>u v. c # cs = u @ p @ v"
    then obtain u v where uv: "c # cs = u @ p @ v" by blast
    show "includes_str (c # cs) p"
    proof (cases u)
      case Nil
      with uv have "startsWith (c # cs) p" by (auto simp: startsWith_iff)
      then show ?thesis by simp
    next
      case (Cons d u')
      with uv have "cs = u' @ p @ v" by simp
      then have "includes_str cs p" using Cons.IH by blast
      then show ?thesis by simp
    qed
  qed
qed

lemma filter_marked:
  "filter (\<lambda>a. id_alert a \<noteq> k) (map (\<lambda>a. if id_alert a = k then a\<lparr>executed := True\<rparr> else a) xs)
     = filter (\<lambda>a. id_alert a \<noteq> k) xs"
  by (induction xs) auto

lemma executeAction_alerts:
  "\<not> executed a \<Longrightarrow> alerts (executeAction a st) = filter (\<lambda>b. id_alert b \<noteq> id_alert a) (alerts st)"
  by (simp add: executeAction_def Let_def filter_marked)

lemma executeAction_log:
  "\<not> executed a \<Longrightarrow> executedActions (executeAction a st) =
     executedActions st @ [logEntry (satNameOf (satellites st) (satelliteId a)) (action a)]"
  by (simp add: executeAction_def Let_def)

lemma executeAction_rest:
  "satellites (executeAction a st) = satellites st"
  "name (executeAction a st) = name st"
  "altitude (executeAction a st) = altitude st"
  "inclination (executeAction a st) = inclination st"
  "timers (executeAction a st) = timers st"
  by (simp_all add: executeAction_def Let_def)

lemma executeAction_executed: "executed a \<Longrightarrow> executeAction a st = st"
  by (simp add: executeAction_def)

lemma hazardTask_alerts:
  "alerts (hazardTask sid f now1 chance now2 offset st) =
     alerts st @
     (case fetchCMEAlerts f of
        [] \<Rightarrow> []
      | m # ms \<Rightarrow> [\<lparr>id_alert = now1, satelliteId = sid, message = m,
                    action = ''Switch off non-critical electronics and shield instruments'',
                    executed = False\<rparr>]) @
     (case simulateConjunctionAlert sid chance now2 offset of None \<Rightarrow> [] | Some c \<Rightarrow> [c])"
  by (simp add: hazardTask_def Let_def split: list.split option.split)

lemma distinct_remove_one:
  "distinct (map f xs) \<Longrightarrow> a \<in> set xs \<Longrightarrow> Suc (length (filter (\<lambda>b. f b \<noteq> f a) xs)) = length xs"
proof (induction xs)
  case Nil
  then show ?case by simp
next
  case (Cons x xs)
  show ?case
  proof (cases "f x = f a")
    case True
    with Cons.prems have "\<forall>b\<in>set xs. f b \<noteq> f a" by (auto simp: image_iff)
    then have "filter (\<lambda>b. f b \<noteq> f a) xs = xs" by (simp add: filter_id_conv)
    with True show ?thesis by simp
  next
    case False
    with Cons.prems have "a \<in> set xs" by auto
    with Cons False show ?thesis by simp
  qed
qed

lemma executeAction_once_distinct:
  assumes "distinct (map id_alert (alerts st))" "a \<in> set (alerts st)" "\<not> executed a"
  shows "Suc (length (alerts (executeAction a st))) = length (alerts st)"
    and "a \<notin> set (alerts (executeAction a st))"
    and "length (executedActions (executeAction a st)) = Suc (length (executedActions st))"
  using assms distinct_remove_one[of id_alert "alerts st" a]
  by (simp_all add: executeAction_alerts executeAction_log)

lemma formClean_initial: "formClean initial"
  by (simp add: formClean_def initial_def)

lemma formClean_step: "formClean st \<Longrightarrow> formClean (step pf e st)"
proof (cases e)
  case (AddSatellite now)
  assume "formClean st"
  with AddSatellite show ?thesis by (simp add: formClean_def addSatellite_def Let_def)
next
  case (Complete i f now1 chance now2 offset)
  assume "formClean st"
  with Complete show ?thesis
    by (simp add: formClean_def hazardTask_def Let_def split: list.split option.split)
next
  case (ExecuteAction a)
  assume "formClean st"
  with ExecuteAction show ?thesis by (simp add: formClean_def executeAction_rest)
qed (simp_all add: formClean_def numberInputValue_def)

lemma formClean_run: "formClean st \<Longrightarrow> formClean (run pf es st)"
  by (induction es arbitrary: st) (simp_all add: formClean_step)

lemma allPending_initial: "allPending initial"
  by (simp add: allPending_def initial_def)

lemma allPending_addSatellite: "allPending st \<Longrightarrow> allPending (addSatellite pf now st)"
  by (simp add: allPending_def addSatellite_def Let_def)

lemma allPending_hazardTask:
  "allPending st \<Longrightarrow> allPending (hazardTask sid f now1 chance now2 offset st)"
  by (auto simp: allPending_def hazardTask_alerts simulateConjunctionAlert_def
      split: list.split)

lemma allPending_executeAction: "allPending st \<Longrightarrow> allPending (executeAction a st)"
  by (cases "executed a")
    (simp_all add: executeAction_executed allPending_def executeAction_alerts list_all_iff)

lemma allPending_step: "allPending st \<Longrightarrow> allPending (step pf e st)"
proof (cases e)
  case (AddSatellite now)
  assume "allPending st"
  with AddSatellite show ?thesis by (simp add: allPending_addSatellite)
next
  case (Complete i f now1 chance now2 offset)
  assume "allPending st"
  then have "allPending (st\<lparr>timers := take i (timers st) @ drop (Suc i) (timers st)\<rparr>)"
    by (simp add: allPending_def)
  then show ?thesis using \<open>allPending st\<close> Complete by (simp add: allPending_hazardTask)
next
  case (ExecuteAction a)
  assume "allPending st"
  with ExecuteAction show ?thesis by (simp add: allPending_executeAction)
qed (simp_all add: allPending_def)

lemma allPending_run: "allPending st \<Longrightarrow> allPending (run pf es st)"
  by (induction es arbitrary: st) (simp_all add: allPending_step)

lemma advisoryText_Some:
  "advisoryText a = Some s \<Longrightarrow>
     isCME a = Inr (includes_str s ''Coronal Mass Ejection'') \<and> messageOf a = Inr (JStr s)"
  by (auto simp: advisoryText_def isCME_def split: jsval.splits option.splits)

lemma includesCall_throws:
  "\<forall>s. v \<noteq> JStr s \<Longrightarrow> \<forall>vs. v \<noteq> JArr vs \<Longrightarrow> includesCall v p = Inl TypeError"
  by (cases v) simp_all

lemma unreadable_throws: "unreadable a \<Longrightarrow> isCME a = Inl TypeError"
  by (auto simp: unreadable_def isCME_def includesCall_throws split: jsval.splits option.splits)

lemma filterE_throws: "a \<in> set xs \<Longrightarrow> f a = Inl TypeError \<Longrightarrow> \<exists>e. filterE f xs = Inl e"
proof (induction xs)
  case Nil
  then show ?case by simp
next
  case (Cons x xs)
  show ?case
  proof (cases "f x")
    case (Inl e)
    then show ?thesis by simp
  next
    case (Inr b)
    with Cons.prems have "a \<in> set xs" by auto
    with Cons.IH Cons.prems(2) obtain e where "filterE f xs = Inl e" by blast
    with Inr show ?thesis by simp
  qed
qed

lemma cmeAlerts_texts:
  "map advisoryText advs = map Some texts \<Longrightarrow>
     (case filterE isCME advs of Inl e \<Rightarrow> Inl e | Inr ms \<Rightarrow> mapE messageOf ms)
       = Inr (map JStr (filter (\<lambda>s. includes_str s ''Coronal Mass Ejection'') texts))"
proof (induction advs arbitrary: texts)
  case Nil
  then show ?case by simp
next
  case (Cons a advs)
  then obtain s ss where t: "texts = s # ss" "advisoryText a = Some s"
    "map advisoryText advs = map Some ss" by (cases texts) auto
  note a = advisoryText_Some[OF t(2)]
  note ih = Cons.IH[OF t(3)]
  show ?case
  proof (cases "filterE isCME advs")
    case (Inl e)
    with ih show ?thesis by simp
  next
    case (Inr ms)
    with ih have "mapE messageOf ms =
      Inr (map JStr (filter (\<lambda>s. includes_str s ''Coronal Mass Ejection'') ss))" by simp
    with Inr a t(1) show ?thesis by simp
  qed
qed

lemma fetch_texts:
  "map advisoryText advs = map Some texts \<Longrightarrow>
     fetchCMEAlerts (Response (JArr advs))
       = map JStr (filter (\<lambda>s. includes_str s ''Coronal Mass Ejection'') texts)"
  using cmeAlerts_texts[of advs texts] by (simp add: fetchCMEAlerts_def cmeAlerts_def)

lemma fetch_unreadable:
  assumes "\<exists>a\<in>set advs. unreadable a"
  shows "fetchCMEAlerts (Response (JArr advs)) = []"
proof -
  from assms obtain a where a: "a \<in> set advs" "unreadable a" by (rule bexE)
  from filterE_throws[where f = isCME, OF a(1) unreadable_throws[OF a(2)]]
  obtain e where "filterE isCME advs = Inl e" by (rule exE)
  then show ?thesis by (simp add: fetchCMEAlerts_def cmeAlerts_def)
qed

lemma fetch_not_array: "\<forall>advs. d \<noteq> JArr advs \<Longrightarrow> fetchCMEAlerts (Response d) = []"
  by (cases d) (simp_all add: fetchCMEAlerts_def cmeAlerts_def)

lemma fetch_rejected: "fetchCMEAlerts Rejected = []"
  by (simp add: fetchCMEAlerts_def cmeAlerts_def)

lemma find_Some_filter: "find P xs = Some m \<Longrightarrow> \<exists>ys. filter P xs = m # ys"
  by (induction xs) (auto split: if_splits)

lemma find_None_filter: "find P xs = None \<Longrightarrow> filter P xs = []"
  by (induction xs) (auto split: if_splits)

subsection \<open>executeAction\<close>

text \<open>
  C1. One call of \<^verbatim>\<open>executeAction\<close> on an active, unexecuted alert is to append one log entry
  and to shrink the active collection by one element. The code removes by identifier, and
  identifiers are not unique: in the sample session with the offset 0 the space-weather
  alert and the conjunction alert both get the identifier 1700000010350. Executing the
  first then
  empties the collection: two alerts are gone, and the conjunction alert has left no log
  entry.
\<close>

theorem executeAction_shared_id_removes_both:
  "run parseFloat_sample (issEvents 0) initial = issState 1700000010350
   \<and> alerts (issState 1700000010350) = [cmeAlert0, conjAlert0 1700000010350]
   \<and> executed cmeAlert0 = False
   \<and> alerts (executeAction cmeAlert0 (issState 1700000010350)) = []
   \<and> executedActions (executeAction cmeAlert0 (issState 1700000010350)) =
        [logEntry ''ISS'' ''Switch off non-critical electronics and shield instruments'']"
proof -
  have e: "\<not> executed cmeAlert0" by (simp add: cmeAlert0_def)
  have "alerts (executeAction cmeAlert0 (issState 1700000010350)) = []"
    using executeAction_alerts[OF e, of "issState 1700000010350"]
    by (simp add: issState_def cmeAlert0_def conjAlert0_def)
  moreover have "executedActions (executeAction cmeAlert0 (issState 1700000010350)) =
        [logEntry ''ISS'' ''Switch off non-critical electronics and shield instruments'']"
    using executeAction_log[OF e, of "issState 1700000010350"]
    by (simp add: issState_def cmeAlert0_def satNameOf_def iss_def)
  moreover have "alerts (issState 1700000010350) = [cmeAlert0, conjAlert0 1700000010350]"
    by (simp add: issState_def)
  ultimately show ?thesis using e run_issEvents_0 by blast
qed

text \<open>
  C2. A second call of \<^verbatim>\<open>executeAction\<close> on the same alert is meant to do nothing. The guard
  reads the \<^verbatim>\<open>executed\<close> flag of the argument, and the first call sets the flag on a copy
  only, so the second call passes the guard and logs the action again.
\<close>

theorem executeAction_twice_logs_twice:
  "run parseFloat_sample (issEvents 250) initial = issState 1700000010600
   \<and> executed cmeAlert0 = False
   \<and> executedActions (executeAction cmeAlert0 (issState 1700000010600)) =
        [logEntry ''ISS'' ''Switch off non-critical electronics and shield instruments'']
   \<and> executedActions (executeAction cmeAlert0 (executeAction cmeAlert0 (issState 1700000010600))) =
        [logEntry ''ISS'' ''Switch off non-critical electronics and shield instruments'',
         logEntry ''ISS'' ''Switch off non-critical electronics and shield instruments'']
   \<and> executeAction cmeAlert0 (executeAction cmeAlert0 (issState 1700000010600))
        \<noteq> executeAction cmeAlert0 (issState 1700000010600)"
proof -
  let ?S = "issState 1700000010600"
  let ?e = "logEntry ''ISS'' ''Switch off non-critical electronics and shield instruments''"
  have e: "\<not> executed cmeAlert0" by (simp add: cmeAlert0_def)
  have n: "satNameOf (satellites ?S) (satelliteId cmeAlert0) = ''ISS''"
    by (simp add: issState_def cmeAlert0_def satNameOf_def iss_def)
  have a: "action cmeAlert0 = ''Switch off non-critical electronics and shield instruments''"
    by (simp add: cmeAlert0_def)
  have one: "executedActions (executeAction cmeAlert0 ?S) = [?e]"
    using executeAction_log[OF e, of ?S] n a by (simp add: issState_def)
  have two: "executedActions (executeAction cmeAlert0 (executeAction cmeAlert0 ?S)) = [?e, ?e]"
    using executeAction_log[OF e, of "executeAction cmeAlert0 ?S"] one n a
    by (simp add: executeAction_rest)
  have "executeAction cmeAlert0 (executeAction cmeAlert0 ?S) \<noteq> executeAction cmeAlert0 ?S"
  proof
    assume "executeAction cmeAlert0 (executeAction cmeAlert0 ?S) = executeAction cmeAlert0 ?S"
    then have "executedActions (executeAction cmeAlert0 (executeAction cmeAlert0 ?S))
      = executedActions (executeAction cmeAlert0 ?S)" by simp
    with one two show False by simp
  qed
  with e one two run_issEvents_250 show ?thesis by blast
qed

subsection \<open>The invariant of the active alerts\<close>

text \<open>
  C3. Every active alert is unexecuted. \<^verbatim>\<open>addSatellite\<close>, the timer callback and
  \<^verbatim>\<open>executeAction\<close> each preserve this; the alerts that \<^verbatim>\<open>executeAction\<close> marks as executed
  (those with the identifier of its argument) are gone from the collection it leaves; and
  the property holds in every state that a run of events reaches from the initial state.
\<close>

theorem active_alerts_all_pending:
  "(allPending st \<longrightarrow>
      allPending (addSatellite pf now st)
      \<and> allPending (hazardTask sid f now1 chance now2 offset st)
      \<and> allPending (executeAction a st))
   \<and> (\<not> executed a \<longrightarrow> (\<forall>b \<in> set (alerts (executeAction a st)). id_alert b \<noteq> id_alert a))
   \<and> allPending (run pf es initial)"
  by (simp add: allPending_addSatellite allPending_hazardTask allPending_executeAction
      executeAction_alerts allPending_run allPending_initial)

theorem active_alerts_all_pending_witness:
  "allPending (issState 1700000010600)
   \<and> \<not> executed cmeAlert0
   \<and> alerts (executeAction cmeAlert0 (issState 1700000010600)) = [conjAlert0 1700000010600]
   \<and> allPending (executeAction cmeAlert0 (issState 1700000010600))
   \<and> allPending (hazardTask 1700000000000 (Response (JArr [cmeAdvisory])) 1700000025000 0.5 1700000025000 750 (issState 1700000010600))
   \<and> id_alert (conjAlert0 1700000010600) \<noteq> id_alert cmeAlert0
   \<and> allPending (run parseFloat_sample (issEvents 250 @ [ExecuteAction cmeAlert0]) initial)"
proof -
  have p: "allPending (issState 1700000010600)"
    by (simp add: allPending_def issState_def cmeAlert0_def conjAlert0_def)
  have e: "\<not> executed cmeAlert0" by (simp add: cmeAlert0_def)
  have r: "alerts (executeAction cmeAlert0 (issState 1700000010600)) = [conjAlert0 1700000010600]"
    using executeAction_alerts[OF e, of "issState 1700000010600"]
    by (simp add: issState_def cmeAlert0_def conjAlert0_def)
  show ?thesis
    using p e r active_alerts_all_pending [of "issState 1700000010600" parseFloat_sample 0 1700000000000
        "Response (JArr [cmeAdvisory])" 1700000025000 "0.5" 1700000025000 750 cmeAlert0
        "issEvents 250 @ [ExecuteAction cmeAlert0]"]
    by simp
qed

subsection \<open>The hazard checks\<close>

text \<open>
  C4, as the code has it. When every entry of the feed is an advisory with a text and
  \<open>m\<close> is the first text that holds \<^verbatim>\<open>Coronal Mass Ejection\<close>, the timer callback appends
  exactly one space-weather alert: its message is \<open>m\<close>, its action is the fixed text
  \<^verbatim>\<open>Switch off non-critical electronics and shield instruments\<close>, it carries the identifier
  of the satellite and is unexecuted. When no text matches it appends none. A rejected
  request, a body that is not an array and a feed with an entry on which the filter throws
  all give no space-weather alert, whatever the other entries are. In each case the
  callback goes on to the conjunction check.
\<close>

theorem hazardTask_cme_alert:
  "(map advisoryText advs = map Some texts \<longrightarrow>
      (find (\<lambda>s. includes_str s ''Coronal Mass Ejection'') texts = Some m \<longrightarrow>
         alerts (hazardTask sid (Response (JArr advs)) nowCme chance nowConj offset st) =
           alerts st @
           [\<lparr>id_alert = nowCme, satelliteId = sid, message = JStr m,
             action = ''Switch off non-critical electronics and shield instruments'',
             executed = False\<rparr>] @
           (case simulateConjunctionAlert sid chance nowConj offset of None \<Rightarrow> [] | Some c \<Rightarrow> [c]))
      \<and> (find (\<lambda>s. includes_str s ''Coronal Mass Ejection'') texts = None \<longrightarrow>
         alerts (hazardTask sid (Response (JArr advs)) nowCme chance nowConj offset st) =
           alerts st @
           (case simulateConjunctionAlert sid chance nowConj offset of None \<Rightarrow> [] | Some c \<Rightarrow> [c])))
   \<and> (f = Rejected
        \<or> (\<exists>d. f = Response d \<and> (\<forall>xs. d \<noteq> JArr xs))
        \<or> (\<exists>xs. f = Response (JArr xs) \<and> (\<exists>a\<in>set xs. unreadable a)) \<longrightarrow>
      fetchCMEAlerts f = []
      \<and> alerts (hazardTask sid f nowCme chance nowConj offset st) =
           alerts st @
           (case simulateConjunctionAlert sid chance nowConj offset of None \<Rightarrow> [] | Some c \<Rightarrow> [c]))"
proof (intro conjI impI)
  assume t: "map advisoryText advs = map Some texts"
    and m: "find (\<lambda>s. includes_str s ''Coronal Mass Ejection'') texts = Some m"
  from find_Some_filter[OF m] obtain ys where
    "filter (\<lambda>s. includes_str s ''Coronal Mass Ejection'') texts = m # ys" by blast
  with fetch_texts[OF t] have "fetchCMEAlerts (Response (JArr advs)) = JStr m # map JStr ys"
    by simp
  then show "alerts (hazardTask sid (Response (JArr advs)) nowCme chance nowConj offset st) =
           alerts st @
           [\<lparr>id_alert = nowCme, satelliteId = sid, message = JStr m,
             action = ''Switch off non-critical electronics and shield instruments'',
             executed = False\<rparr>] @
           (case simulateConjunctionAlert sid chance nowConj offset of None \<Rightarrow> [] | Some c \<Rightarrow> [c])"
    by (simp add: hazardTask_alerts)
next
  assume t: "map advisoryText advs = map Some texts"
    and m: "find (\<lambda>s. includes_str s ''Coronal Mass Ejection'') texts = None"
  from fetch_texts[OF t] find_None_filter[OF m]
  have "fetchCMEAlerts (Response (JArr advs)) = []" by simp
  then show "alerts (hazardTask sid (Response (JArr advs)) nowCme chance nowConj offset st) =
           alerts st @
           (case simulateConjunctionAlert sid chance nowConj offset of None \<Rightarrow> [] | Some c \<Rightarrow> [c])"
    by (simp add: hazardTask_alerts)
next
  assume "f = Rejected
        \<or> (\<exists>d. f = Response d \<and> (\<forall>xs. d \<noteq> JArr xs))
        \<or> (\<exists>xs. f = Response (JArr xs) \<and> (\<exists>a\<in>set xs. unreadable a))"
  then show e: "fetchCMEAlerts f = []"
  proof (elim disjE exE conjE)
    assume "f = Rejected"
    then show ?thesis by (simp add: fetch_rejected)
  next
    fix d assume "f = Response d" "\<forall>xs. d \<noteq> JArr xs"
    then show ?thesis by (simp add: fetch_not_array)
  next
    fix xs assume "f = Response (JArr xs)" "\<exists>a\<in>set xs. unreadable a"
    then show ?thesis by (simp add: fetch_unreadable)
  qed
  then show "alerts (hazardTask sid f nowCme chance nowConj offset st) =
           alerts st @
           (case simulateConjunctionAlert sid chance nowConj offset of None \<Rightarrow> [] | Some c \<Rightarrow> [c])"
    by (simp add: hazardTask_alerts)
qed

text \<open>The theorem of C4 on the sample feed, and on a feed whose second entry is \<^verbatim>\<open>null\<close>.\<close>

theorem hazardTask_cme_alert_witness:
  "alerts (hazardTask 1700000000000 (Response (JArr sampleFeed)) 1700000010350 0.1 1700000010350 0
      (initial :: number AppState)) = [cmeAlert0]
   \<and> alerts (hazardTask 1700000000000 (Response (JArr [cmeAdvisory, JNull])) 1700000010350 0.1 1700000010350 0
      (initial :: number AppState)) = []"
proof -
  have t: "map advisoryText sampleFeed = map Some [''Geomagnetic storm watch'',
      ''Coronal Mass Ejection detected'', ''Update: Coronal Mass Ejection arrival'']"
    by (simp add: sampleFeed_def advisoryText_def cmeAdvisory_def)
  have m: "find (\<lambda>s. includes_str s ''Coronal Mass Ejection'') [''Geomagnetic storm watch'',
      ''Coronal Mass Ejection detected'', ''Update: Coronal Mass Ejection arrival'']
      = Some ''Coronal Mass Ejection detected''"
    by simp
  have u: "\<exists>a\<in>set [cmeAdvisory, JNull]. unreadable a" by (simp add: unreadable_def)
  have c: "simulateConjunctionAlert 1700000000000 0.1 1700000010350 0 = None"
    by (simp add: simulateConjunctionAlert_def)
  show ?thesis
    using t m u c
      hazardTask_cme_alert [where advs = sampleFeed and m = "''Coronal Mass Ejection detected''"
        and texts = "[''Geomagnetic storm watch'',
      ''Coronal Mass Ejection detected'', ''Update: Coronal Mass Ejection arrival'']"
        and f = "Response (JArr [cmeAdvisory, JNull])" and sid = 1700000000000 and nowCme = 1700000010350
        and chance = "0.1" and nowConj = 1700000010350 and offset = 0 and st = "initial :: number AppState"]
    by (simp add: initial_def cmeAlert0_def)
qed

text \<open>
  C4 as the specification words it names the action
  \<^verbatim>\<open>power down non-critical systems, shield instruments\<close>; the alert that the code creates
  has another text.
\<close>

theorem cme_action_text_counterexample:
  "alerts (hazardTask 1700000000000 (Response (JArr [cmeAdvisory])) 1700000010350 0.1 1700000010350 0
      (initial :: number AppState)) = [cmeAlert0]
   \<and> action cmeAlert0 \<noteq> ''power down non-critical systems, shield instruments''"
  by (simp add: hazardTask_alerts fetch_cmeAdvisory simulateConjunctionAlert_def initial_def
      cmeAlert0_def)

text \<open>
  C5, as the code has it. A draw below 0.4 gives no conjunction alert. Any other draw
  gives exactly one, appended after the space-weather alert if there is one: its message
  is \<^verbatim>\<open>Conjunction alert: Possible collision with space debris!\<close>, its action is
  \<^verbatim>\<open>Perform evasive maneuver or adjust orbit\<close>, it carries the identifier of the satellite
  and it is unexecuted.
\<close>

theorem conjunction_check:
  "(chance < 0.4 \<longrightarrow>
      simulateConjunctionAlert sid chance now offset = None
      \<and> alerts (hazardTask sid f nowCme chance now offset st) =
          alerts st @
          (case fetchCMEAlerts f of
             [] \<Rightarrow> []
           | m # ms \<Rightarrow> [\<lparr>id_alert = nowCme, satelliteId = sid, message = m,
                action = ''Switch off non-critical electronics and shield instruments'',
                executed = False\<rparr>]))
   \<and> (\<not> chance < 0.4 \<longrightarrow>
      (\<exists>i. simulateConjunctionAlert sid chance now offset =
             Some \<lparr>id_alert = i, satelliteId = sid,
                   message = JStr ''Conjunction alert: Possible collision with space debris!'',
                   action = ''Perform evasive maneuver or adjust orbit'',
                   executed = False\<rparr>
           \<and> alerts (hazardTask sid f nowCme chance now offset st) =
               alerts st @
               (case fetchCMEAlerts f of
                  [] \<Rightarrow> []
                | m # ms \<Rightarrow> [\<lparr>id_alert = nowCme, satelliteId = sid, message = m,
                     action = ''Switch off non-critical electronics and shield instruments'',
                     executed = False\<rparr>]) @
               [\<lparr>id_alert = i, satelliteId = sid,
                 message = JStr ''Conjunction alert: Possible collision with space debris!'',
                 action = ''Perform evasive maneuver or adjust orbit'',
                 executed = False\<rparr>]))"
proof (intro conjI impI)
  assume "chance < 0.4"
  then show "simulateConjunctionAlert sid chance now offset = None"
    by (simp add: simulateConjunctionAlert_def)
  then show "alerts (hazardTask sid f nowCme chance now offset st) =
          alerts st @
          (case fetchCMEAlerts f of
             [] \<Rightarrow> []
           | m # ms \<Rightarrow> [\<lparr>id_alert = nowCme, satelliteId = sid, message = m,
                action = ''Switch off non-critical electronics and shield instruments'',
                executed = False\<rparr>])"
    by (simp add: hazardTask_alerts)
next
  assume "\<not> chance < 0.4"
  then have c: "simulateConjunctionAlert sid chance now offset =
             Some \<lparr>id_alert = now + offset, satelliteId = sid,
                   message = JStr ''Conjunction alert: Possible collision with space debris!'',
                   action = ''Perform evasive maneuver or adjust orbit'',
                   executed = False\<rparr>"
    by (simp add: simulateConjunctionAlert_def)
  then have "alerts (hazardTask sid f nowCme chance now offset st) =
               alerts st @
               (case fetchCMEAlerts f of
                  [] \<Rightarrow> []
                | m # ms \<Rightarrow> [\<lparr>id_alert = nowCme, satelliteId = sid, message = m,
                     action = ''Switch off non-critical electronics and shield instruments'',
                     executed = False\<rparr>]) @
               [\<lparr>id_alert = now + offset, satelliteId = sid,
                 message = JStr ''Conjunction alert: Possible collision with space debris!'',
                 action = ''Perform evasive maneuver or adjust orbit'',
                 executed = False\<rparr>]"
    by (simp add: hazardTask_alerts)
  with c show "\<exists>i. simulateConjunctionAlert sid chance now offset =
             Some \<lparr>id_alert = i, satelliteId = sid,
                   message = JStr ''Conjunction alert: Possible collision with space debris!'',
                   action = ''Perform evasive maneuver or adjust orbit'',
                   executed = False\<rparr>
           \<and> alerts (hazardTask sid f nowCme chance now offset st) =
               alerts st @
               (case fetchCMEAlerts f of
                  [] \<Rightarrow> []
                | m # ms \<Rightarrow> [\<lparr>id_alert = nowCme, satelliteId = sid, message = m,
                     action = ''Switch off non-critical electronics and shield instruments'',
                     executed = False\<rparr>]) @
               [\<lparr>id_alert = i, satelliteId = sid,
                 message = JStr ''Conjunction alert: Possible collision with space debris!'',
                 action = ''Perform evasive maneuver or adjust orbit'',
                 executed = False\<rparr>]"
    by blast
qed

text \<open>The theorem of C5 at the draws 0.39 and 0.4.\<close>

theorem conjunction_check_witness:
  "(0.39 :: real) < 0.4
   \<and> simulateConjunctionAlert 1700000000000 0.39 1700000010350 250 = None
   \<and> alerts (hazardTask 1700000000000 Rejected 1700000010350 0.39 1700000010350 250
        (initial :: number AppState)) = []
   \<and> \<not> (0.4 :: real) < 0.4
   \<and> map_option (\<lambda>a. a\<lparr>id_alert := 0\<rparr>)
        (simulateConjunctionAlert 1700000000000 0.4 1700000010350 250) = Some (conjAlert0 0)
   \<and> map (\<lambda>a. a\<lparr>id_alert := 0\<rparr>)
        (alerts (hazardTask 1700000000000 Rejected 1700000010350 0.4 1700000010350 250
          (initial :: number AppState))) = [conjAlert0 0]"
  using conjunction_check [of "0.39" 1700000000000 1700000010350 250 Rejected 1700000010350
      "initial :: number AppState"]
    conjunction_check [of "0.4" 1700000000000 1700000010350 250 Rejected 1700000010350
      "initial :: number AppState"]
  by (auto simp: fetch_rejected initial_def conjAlert0_def)

text \<open>
  C5 as the specification words it names the message \<^verbatim>\<open>possible collision with debris\<close>
  and the action \<^verbatim>\<open>perform evasive maneuver or adjust orbit\<close>; the alert that the code
  creates has other texts.
\<close>

theorem conjunction_texts_counterexample:
  "map_option message (simulateConjunctionAlert 1700000000000 0.5 1700000010350 250)
     = Some (JStr ''Conjunction alert: Possible collision with space debris!'')
   \<and> map_option message (simulateConjunctionAlert 1700000000000 0.5 1700000010350 250)
     \<noteq> Some (JStr ''possible collision with debris'')
   \<and> map_option action (simulateConjunctionAlert 1700000000000 0.5 1700000010350 250)
     = Some ''Perform evasive maneuver or adjust orbit''
   \<and> map_option action (simulateConjunctionAlert 1700000000000 0.5 1700000010350 250)
     \<noteq> Some ''perform evasive maneuver or adjust orbit''"
  by (simp add: simulateConjunctionAlert_def)

subsection \<open>addSatellite\<close>

text \<open>
  C6. When the three inputs are non-empty, \<^verbatim>\<open>addSatellite\<close> appends one satellite at the end
  of the registry, which is longer by one: its name is the name typed in, its altitude and
  inclination are what \<^verbatim>\<open>parseFloat\<close> makes of the two numeric texts, and its identifier is
  the clock. A timer of 10000 ms is armed for the new satellite.
\<close>

theorem addSatellite_appends:
  "name st \<noteq> [] \<Longrightarrow> altitude st \<noteq> [] \<Longrightarrow> inclination st \<noteq> [] \<Longrightarrow>
     satellites (addSatellite pf now st) =
       satellites st @
       [\<lparr>id_sat = now, name_sat = name st,
         altitude_sat = pf (altitude st), inclination_sat = pf (inclination st)\<rparr>]
     \<and> length (satellites (addSatellite pf now st)) = Suc (length (satellites st))
     \<and> timers (addSatellite pf now st) = timers st @ [(10000, now)]"
  by (simp add: addSatellite_def Let_def)

text \<open>The theorem of C6 on the inputs \<^verbatim>\<open>ISS\<close>, \<^verbatim>\<open>400\<close> and \<^verbatim>\<open>51.5\<close>.\<close>

theorem addSatellite_appends_witness:
  "satellites (addSatellite parseFloat_sample 1700000000000
      (initial\<lparr>name := ''ISS'', altitude := ''400'', inclination := ''51.5''\<rparr>)) = [iss]
   \<and> timers (addSatellite parseFloat_sample 1700000000000
      (initial\<lparr>name := ''ISS'', altitude := ''400'', inclination := ''51.5''\<rparr>)) = [(10000, 1700000000000)]"
  using addSatellite_appends [of "initial\<lparr>name := ''ISS'', altitude := ''400'', inclination := ''51.5''\<rparr>"
      parseFloat_sample 1700000000000]
  by (simp add: initial_def iss_def parseFloat_sample_def)

text \<open>
  C7. The three texts typed into the form are an input triple. When the name is empty, or
  the altitude or the inclination is empty or not a number, \<^verbatim>\<open>addSatellite\<close> changes
  nothing: the registry and the timers are as they were before the typing, and the state is
  the form as typed. When the name is non-empty and the two others are numbers, whatever
  their sign or size, the satellite is appended with what \<^verbatim>\<open>parseFloat\<close> makes of the two
  texts, and its timer is armed. In every state that a run reaches, the altitude and the
  inclination that \<^verbatim>\<open>addSatellite\<close> reads are empty or numbers, so its test of emptiness is
  the only validation there is.
\<close>

theorem addSatellite_rejects_empty_or_unparsable:
  "(n = [] \<or> a = [] \<or> i = [] \<or> \<not> validFloatingPoint a \<or> \<not> validFloatingPoint i \<longrightarrow>
      addSatellite pf now (run pf [SetName n, SetAltitude a, SetInclination i] st)
        = run pf [SetName n, SetAltitude a, SetInclination i] st
      \<and> satellites (addSatellite pf now (run pf [SetName n, SetAltitude a, SetInclination i] st))
        = satellites st
      \<and> timers (addSatellite pf now (run pf [SetName n, SetAltitude a, SetInclination i] st))
        = timers st)
   \<and> (n \<noteq> [] \<and> validFloatingPoint a \<and> validFloatingPoint i \<longrightarrow>
      satellites (addSatellite pf now (run pf [SetName n, SetAltitude a, SetInclination i] st))
        = satellites st @
          [\<lparr>id_sat = now, name_sat = n, altitude_sat = pf a, inclination_sat = pf i\<rparr>]
      \<and> timers (addSatellite pf now (run pf [SetName n, SetAltitude a, SetInclination i] st))
        = timers st @ [(10000, now)])
   \<and> (altitude (run pf evs initial) = [] \<or> validFloatingPoint (altitude (run pf evs initial)))
   \<and> (inclination (run pf evs initial) = []
        \<or> validFloatingPoint (inclination (run pf evs initial)))"
proof -
  let ?typed = "run pf [SetName n, SetAltitude a, SetInclination i] st"
  have t: "?typed = st\<lparr>name := n, altitude := numberInputValue a,
      inclination := numberInputValue i\<rparr>"
    by simp
  have v: "\<not> validFloatingPoint []" by (simp add: validFloatingPoint_def)
  have rejected: "addSatellite pf now ?typed = ?typed \<and>
      satellites (addSatellite pf now ?typed) = satellites st \<and>
      timers (addSatellite pf now ?typed) = timers st"
    if "n = [] \<or> a = [] \<or> i = [] \<or> \<not> validFloatingPoint a \<or> \<not> validFloatingPoint i"
  proof -
    from that v have "n = [] \<or> numberInputValue a = [] \<or> numberInputValue i = []"
      by (auto simp: numberInputValue_def)
    then show ?thesis unfolding t by (simp add: addSatellite_def)
  qed
  have accepted: "satellites (addSatellite pf now ?typed) =
        satellites st @
          [\<lparr>id_sat = now, name_sat = n, altitude_sat = pf a, inclination_sat = pf i\<rparr>] \<and>
      timers (addSatellite pf now ?typed) = timers st @ [(10000, now)]"
    if "n \<noteq> [] \<and> validFloatingPoint a \<and> validFloatingPoint i"
  proof -
    from that v have "n \<noteq> []" "numberInputValue a = a" "numberInputValue i = i"
      "a \<noteq> []" "i \<noteq> []"
      by (auto simp: numberInputValue_def)
    then show ?thesis unfolding t by (simp add: addSatellite_def Let_def)
  qed
  from rejected accepted formClean_run[OF formClean_initial, of pf evs]
  show ?thesis by (simp add: formClean_def)
qed

text \<open>
  The theorem of C7 on the altitude \<^verbatim>\<open>abc\<close>, which the input hands over as the empty
  string, and on the altitude \<^verbatim>\<open>-5\<close>.
\<close>

theorem addSatellite_rejects_empty_or_unparsable_witness:
  "\<not> validFloatingPoint ''abc''
   \<and> addSatellite parseFloat_sample 1700000000000
        (run parseFloat_sample [SetName ''ISS'', SetAltitude ''abc'', SetInclination ''51.5'']
          initial)
      = initial\<lparr>name := ''ISS'', inclination := ''51.5''\<rparr>
   \<and> validFloatingPoint ''-5''
   \<and> validFloatingPoint ''51.5''
   \<and> satellites (addSatellite parseFloat_sample 1700000000000
        (run parseFloat_sample [SetName ''ISS'', SetAltitude ''-5'', SetInclination ''51.5'']
          initial))
      = [\<lparr>id_sat = 1700000000000, name_sat = ''ISS'', altitude_sat = Num (- 5),
          inclination_sat = Num 51.5\<rparr>]
   \<and> altitude (run parseFloat_sample [SetAltitude ''abc''] initial) = []"
proof -
  have v: "\<not> validFloatingPoint ''abc''" "validFloatingPoint ''-5''" "validFloatingPoint ''51.5''"
    by (simp_all add: validFloatingPoint_def validExponent_def isDigit_def)
  have t: "run parseFloat_sample [SetName ''ISS'', SetAltitude ''abc'', SetInclination ''51.5'']
      initial = initial\<lparr>name := ''ISS'', inclination := ''51.5''\<rparr>"
    using v by (simp add: numberInputValue_def initial_def)
  have p: "parseFloat_sample ''-5'' = Num (- 5)" "parseFloat_sample ''51.5'' = Num 51.5"
    by (simp_all add: parseFloat_sample_def)
  have s: "satellites (initial :: number AppState) = []" by (simp add: initial_def)
  have e: "altitude (run parseFloat_sample [SetAltitude ''abc''] initial) = []"
    using v by (simp add: numberInputValue_def)
  show ?thesis
    using v t p s e
      addSatellite_rejects_empty_or_unparsable [of "''ISS''" "''abc''" "''51.5''"
        parseFloat_sample 1700000000000 "initial :: number AppState" "[]"]
      addSatellite_rejects_empty_or_unparsable [of "''ISS''" "''-5''" "''51.5''"
        parseFloat_sample 1700000000000 "initial :: number AppState" "[]"]
    by simp
qed

subsection \<open>executeAction, continued\<close>

text \<open>
  C8. When no satellite of the registry has the identifier that an unexecuted alert
  names, \<^verbatim>\<open>executeAction\<close> still appends its log entry, with the label
  \<^verbatim>\<open>Unknown Satellite\<close> in the place of the name.
\<close>

theorem executeAction_unknown_satellite:
  "\<not> executed a \<Longrightarrow> \<forall>s\<in>set (satellites st). id_sat s \<noteq> satelliteId a \<Longrightarrow>
     executedActions (executeAction a st) =
       executedActions st @
       [successMarker @ '' Action executed for '' @ ''Unknown Satellite'' @ '': '' @ action a]
     \<and> (\<exists>u v. last (executedActions (executeAction a st)) = u @ ''Unknown Satellite'' @ v)"
proof -
  assume e: "\<not> executed a" and n: "\<forall>s\<in>set (satellites st). id_sat s \<noteq> satelliteId a"
  from n have "find (\<lambda>s. id_sat s = satelliteId a) (satellites st) = None"
    by (simp add: find_None_iff)
  then have "satNameOf (satellites st) (satelliteId a) = ''Unknown Satellite''"
    by (simp add: satNameOf_def)
  with executeAction_log[OF e, of st]
  have l: "executedActions (executeAction a st) =
       executedActions st @
       [successMarker @ '' Action executed for '' @ ''Unknown Satellite'' @ '': '' @ action a]"
    by (simp add: logEntry_def)
  then have "last (executedActions (executeAction a st)) =
    (successMarker @ '' Action executed for '') @ ''Unknown Satellite'' @ ('': '' @ action a)"
    by simp
  then have "\<exists>u v. last (executedActions (executeAction a st)) = u @ ''Unknown Satellite'' @ v"
    by blast
  with l show ?thesis by blast
qed

text \<open>The theorem of C8 on an alert that names the satellite 7, which the registry lacks.\<close>

theorem executeAction_unknown_satellite_witness:
  "\<not> executed (cmeAlert0\<lparr>satelliteId := 7\<rparr>)
   \<and> map id_sat (satellites (issState 1700000010600)) = [1700000000000]
   \<and> executedActions (executeAction (cmeAlert0\<lparr>satelliteId := 7\<rparr>) (issState 1700000010600)) =
       [successMarker @ '' Action executed for Unknown Satellite: Switch off non-critical electronics and shield instruments'']"
proof -
  have e: "\<not> executed (cmeAlert0\<lparr>satelliteId := 7\<rparr>)" by (simp add: cmeAlert0_def)
  have n: "\<forall>s\<in>set (satellites (issState 1700000010600)). id_sat s \<noteq> satelliteId (cmeAlert0\<lparr>satelliteId := 7\<rparr>)"
    by (simp add: issState_def iss_def)
  have m: "map id_sat (satellites (issState 1700000010600)) = [1700000000000]" by (simp add: issState_def iss_def)
  from executeAction_unknown_satellite[OF e n] e m show ?thesis
    by (simp add: issState_def cmeAlert0_def)
qed

text \<open>
  C9. Identifiers are meant to be unique. They are readings of the clock, to which the
  conjunction alert adds a random offset below 1000, so they can coincide: in the sample
  session with the offset 0 the two alerts of one callback are different alerts with the
  same identifier 1700000010350.
\<close>

theorem alert_ids_collide:
  "run parseFloat_sample (issEvents 0) initial = issState 1700000010350
   \<and> alerts (issState 1700000010350) = [cmeAlert0, conjAlert0 1700000010350]
   \<and> cmeAlert0 \<noteq> conjAlert0 1700000010350
   \<and> id_alert cmeAlert0 = id_alert (conjAlert0 1700000010350)
   \<and> \<not> distinct (map id_alert (alerts (issState 1700000010350)))"
proof -
  have "alerts (issState 1700000010350) = [cmeAlert0, conjAlert0 1700000010350]" by (simp add: issState_def)
  moreover have "cmeAlert0 \<noteq> conjAlert0 1700000010350" by (simp add: cmeAlert0_def conjAlert0_def)
  moreover have "id_alert cmeAlert0 = id_alert (conjAlert0 1700000010350)"
    by (simp add: cmeAlert0_def conjAlert0_def)
  ultimately show ?thesis using run_issEvents_0 by simp
qed

text \<open>
  C10. \<^verbatim>\<open>executeAction\<close> leaves the registry, the three inputs and the timers as they were.
  On an executed alert it changes nothing at all. On an unexecuted alert the new active
  collection is the old one without the alerts that have the identifier of the argument,
  all of them, and the log gains one entry.
\<close>

theorem executeAction_frame:
  "satellites (executeAction a st) = satellites st
   \<and> name (executeAction a st) = name st
   \<and> altitude (executeAction a st) = altitude st
   \<and> inclination (executeAction a st) = inclination st
   \<and> timers (executeAction a st) = timers st
   \<and> (executed a \<longrightarrow> executeAction a st = st)
   \<and> (\<not> executed a \<longrightarrow>
        alerts (executeAction a st) = filter (\<lambda>b. id_alert b \<noteq> id_alert a) (alerts st)
        \<and> (\<forall>b\<in>set (alerts st). id_alert b = id_alert a \<longrightarrow> b \<notin> set (alerts (executeAction a st)))
        \<and> executedActions (executeAction a st) =
            executedActions st @ [logEntry (satNameOf (satellites st) (satelliteId a)) (action a)])"
  by (simp add: executeAction_rest executeAction_executed executeAction_alerts executeAction_log)

text \<open>
  The theorem of C10 on the state where both active alerts have the identifier 1700000010350: one
  execution removes both.
\<close>

theorem executeAction_frame_witness:
  "\<not> executed cmeAlert0
   \<and> alerts (issState 1700000010350) = [cmeAlert0, conjAlert0 1700000010350]
   \<and> id_alert (conjAlert0 1700000010350) = id_alert cmeAlert0
   \<and> alerts (executeAction cmeAlert0 (issState 1700000010350)) = []
   \<and> satellites (executeAction cmeAlert0 (issState 1700000010350)) = [iss]
   \<and> executed (cmeAlert0\<lparr>executed := True\<rparr>)
   \<and> executeAction (cmeAlert0\<lparr>executed := True\<rparr>) (issState 1700000010350) = issState 1700000010350"
  using executeAction_frame [of cmeAlert0 "issState 1700000010350"]
    executeAction_frame [of "cmeAlert0\<lparr>executed := True\<rparr>" "issState 1700000010350"]
  by (simp add: issState_def cmeAlert0_def conjAlert0_def)

end
